theory Spec2Isabelle
  imports Complex_Main
begin

section \<open>Python strings\<close>

text \<open>
  A Python \<open>str\<close> is modelled as a \<open>string\<close>; a character stands for a code point
  below 256.  \<open>py_isspace\<close> is \<open>str.isspace\<close> on that range: the characters that
  \<open>str.strip()\<close> and \<open>str.split()\<close> treat as white space.
\<close>

definition py_isspace :: "char \<Rightarrow> bool" where
  "py_isspace c =
     (let n = (of_char c :: nat)
      in (9 \<le> n \<and> n \<le> 13) \<or> (28 \<le> n \<and> n \<le> 32) \<or> n = 133 \<or> n = 160)"

text \<open>\<open>s.strip()\<close>\<close>

definition strip :: "string \<Rightarrow> string" where
  "strip s = rev (dropWhile py_isspace (rev (dropWhile py_isspace s)))"

text \<open>\<open>s.split(c)\<close> for a separator of one character: never empty, one more field than
  there are separators.\<close>

fun split_on :: "char \<Rightarrow> string \<Rightarrow> string list" where
  "split_on c [] = ['''']"
| "split_on c (x # xs) =
     (if x = c then [] # split_on c xs
      else (case split_on c xs of
              [] \<Rightarrow> [x # []]
            | w # ws \<Rightarrow> (x # w) # ws))"

text \<open>\<open>s.split()\<close>: the maximal runs of characters that are not white space.  The first
  argument is the run being read, reversed.\<close>

fun split_ws_from :: "string \<Rightarrow> string \<Rightarrow> string list" where
  "split_ws_from cur [] = (if cur = [] then [] else [rev cur])"
| "split_ws_from cur (c # cs) =
     (if py_isspace c
      then (if cur = [] then split_ws_from [] cs else rev cur # split_ws_from [] cs)
      else split_ws_from (c # cur) cs)"

definition split_ws :: "string \<Rightarrow> string list" where
  "split_ws s = split_ws_from [] s"

text \<open>\<open>s.startswith(p)\<close> and \<open>p in s\<close>\<close>

fun startswith :: "string \<Rightarrow> string \<Rightarrow> bool" where
  "startswith s [] = True"
| "startswith [] (p # ps) = False"
| "startswith (x # xs) (p # ps) = (x = p \<and> startswith xs ps)"

fun contains :: "string \<Rightarrow> string \<Rightarrow> bool" where
  "contains [] p = (p = [])"
| "contains (x # xs) p = (startswith (x # xs) p \<or> contains xs p)"

text \<open>\<open>' '.join(ws)\<close>\<close>

fun join_sp :: "string list \<Rightarrow> string" where
  "join_sp [] = []"
| "join_sp [w] = w"
| "join_sp (w # ws) = w @ '' '' @ join_sp ws"

text \<open>\<open>str(n)\<close> for a natural number\<close>

definition digit_char :: "nat \<Rightarrow> char" where
  "digit_char d = char_of (48 + d)"

function str_nat :: "nat \<Rightarrow> string" where
  "str_nat n = (if n < 10 then [digit_char n] else str_nat (n div 10) @ [digit_char (n mod 10)])"
  by pat_completeness auto
termination
  by (relation "measure id") auto

section \<open>Exceptions\<close>

datatype exn =
    FileNotFoundError
  | TimeoutExpired
  | KeyError string
  | IndexError
  | OtherError string
  | SystemExit int

text \<open>\<open>except Exception\<close> catches everything but \<open>SystemExit\<close>.\<close>

fun is_Exception :: "exn \<Rightarrow> bool" where
  "is_Exception (SystemExit _) = False"
| "is_Exception _ = True"

text \<open>\<open>str(e)\<close>.  \<open>FileNotFoundError\<close> and \<open>TimeoutExpired\<close> are caught by class
  wherever they are raised, so their text is never read; it is abridged here.\<close>

fun str_exn :: "exn \<Rightarrow> string" where
  "str_exn FileNotFoundError = ''No such file or directory''"
| "str_exn TimeoutExpired = ''timed out''"
| "str_exn (KeyError k) = [CHR 0x27] @ k @ [CHR 0x27]"
| "str_exn IndexError = ''list index out of range''"
| "str_exn (OtherError m) = m"
| "str_exn (SystemExit c) = (if c < 0 then ''-'' @ str_nat (nat (- c)) else str_nat (nat c))"

section \<open>StatsParser: \<open>parse_rsync_stats\<close>\<close>

type_synonym stats = "string \<rightharpoonup> string"

text \<open>\<open>line.split(':')[1]\<close>: the second field, \<open>IndexError\<close> when there is none.\<close>

definition field1 :: "string \<Rightarrow> exn + string" where
  "field1 line =
     (case split_on CHR '':'' line of
        _ # v # _ \<Rightarrow> Inr v
      | _ \<Rightarrow> Inl IndexError)"

definition set_stat :: "stats \<Rightarrow> string \<Rightarrow> string \<Rightarrow> exn + stats" where
  "set_stat st key line =
     (case field1 line of
        Inl e \<Rightarrow> Inl e
      | Inr v \<Rightarrow> Inr (st(key \<mapsto> strip v)))"

text \<open>The body of the loop over the lines: the \<open>if\<close>/\<open>elif\<close> chain, in the source's order.\<close>

definition parse_line :: "stats \<Rightarrow> string \<Rightarrow> exn + stats" where
  "parse_line st line =
     (if contains line ''Number of files:'' then set_stat st ''total_files'' line
      else if contains line ''Number of created files:'' then set_stat st ''created_files'' line
      else if contains line ''Number of deleted files:'' then set_stat st ''deleted_files'' line
      else if contains line ''Total transferred file size:'' then set_stat st ''transferred_size'' line
      else if contains line ''Total file size:'' then set_stat st ''total_size'' line
      else Inr st)"

fun parse_lines :: "stats \<Rightarrow> string list \<Rightarrow> exn + stats" where
  "parse_lines st [] = Inr st"
| "parse_lines st (l # ls) =
     (case parse_line st l of
        Inl e \<Rightarrow> Inl e
      | Inr st' \<Rightarrow> parse_lines st' ls)"

definition parse_rsync_stats :: "string \<Rightarrow> exn + stats" where
  "parse_rsync_stats output = parse_lines Map.empty (split_on CHR 0x0A output)"

section \<open>Data model\<close>

text \<open>
  The dictionaries of the program are records, one field for each key; a key that may be
  absent is an \<open>option\<close>.  A job of the configuration and the \<open>job_status\<close> that
  \<open>run_rsync\<close> builds share the keys \<open>name\<close>, \<open>source\<close> and \<open>destination\<close>.  An
  instant of \<open>datetime.now()\<close> is a number of seconds; its \<open>isoformat()\<close> rendering
  is not modelled, the instant itself is stored.
\<close>

type_synonym timestamp = real

record target =
  name :: string
  source :: string
  destination :: string

record job = target +
  exclude :: "string list option"
  enabled :: "bool option"

record run_result = target +
  job_last_run :: timestamp
  duration :: real
  success :: bool
  return_code :: int
  error :: "string option"
  stats :: stats
  stdout :: string
  stderr :: string

record summary =
  successful :: nat
  failed :: nat
  total_count :: nat

record status_doc =
  jobs :: "string \<rightharpoonup> run_result"
  last_run :: "timestamp option"
  total_runs :: "int option"
  last_summary :: "summary option"

record notification =
  email :: "string option"
  smtp_user :: "string option"
  smtp_pass :: "string option"
  smtp_server :: "string option"
  smtp_port :: "nat option"

record settings =
  ssh_key :: "string option"
  rsync_options :: "string option"
  notification :: "notification option"

record config =
  sync_jobs :: "job list"
  settings :: "settings option"

text \<open>The document \<open>{'jobs': {}, 'last_run': None, 'total_runs': 0}\<close>\<close>

definition default_status :: status_doc where
  "default_status =
     \<lparr>jobs = Map.empty, last_run = None, total_runs = Some 0, last_summary = None\<rparr>"

section \<open>The world outside the program\<close>

text \<open>What \<open>subprocess.run\<close> does with a command: the child exits (return code, standard
  output, standard error), the timeout expires, or the call fails with a description.\<close>

datatype proc_outcome =
    Exited int string string
  | Timeout
  | Failure string

record completed =
  returncode :: int
  out :: string
  err :: string

text \<open>The status file: absent, present but not readable as a document, or holding a
  document.\<close>

datatype file_state =
    Missing
  | Unreadable string
  | Stored status_doc

text \<open>What a write of the status file does: it succeeds, \<open>open\<close> fails and the file is
  untouched, or \<open>json.dump\<close> fails after the file was truncated.\<close>

datatype write_outcome =
    Written
  | OpenFailed string
  | DumpFailed string

record message =
  msg_from :: string
  msg_to :: string
  msg_subject :: string
  msg_body :: string

datatype smtp_action =
    Connect string nat
  | StartTLS
  | Login string string
  | SendMessage message
  | Quit

text \<open>One constructor for each logging call of the source, with the values it formats.\<close>

datatype log_event =
    ConfigLoaded
  | ConfigLoadFailed string
  | StatusLoadFailed string
  | StatusSaveFailed string
  | SyncStarting string string
  | JobCompleted string real
  | JobFailed string int
  | JobErrorOutput string
  | JobTimedOut string
  | JobException string string
  | NotifySkipped
  | NotifySent
  | NotifyFailed string
  | BatchStarting
  | SkippingDisabled string
  | BatchCompleted real
  | BatchResults nat nat

datatype log_level = Info | Warning | Error

fun level :: "log_event \<Rightarrow> log_level" where
  "level (ConfigLoadFailed _) = Error"
| "level (StatusLoadFailed _) = Error"
| "level (StatusSaveFailed _) = Error"
| "level (JobFailed _ _) = Error"
| "level (JobErrorOutput _) = Error"
| "level (JobTimedOut _) = Error"
| "level (JobException _ _) = Error"
| "level (NotifyFailed _) = Error"
| "level NotifySkipped = Warning"
| "level _ = Info"

text \<open>
  The environment answers every question the program asks of the outside: the clock at its
  n-th reading, the n-th child process, the n-th write of the status file, the n-th action
  on the mail relay (\<open>Some\<close> description when it fails), and the configuration file (its
  content, or the description of the failure to load it).
\<close>

record env =
  clock :: "nat \<Rightarrow> timestamp"
  spawn :: "nat \<Rightarrow> string list \<Rightarrow> proc_outcome"
  write_outcome :: "nat \<Rightarrow> write_outcome"
  smtp_error :: "nat \<Rightarrow> smtp_action \<Rightarrow> string option"
  config_file :: "string + config"

text \<open>
  The state: \<open>self.status\<close>, the log, the status file, and the trace of what the program
  did to the outside (documents it tried to write, commands it ran, clock readings, actions
  on the mail relay) and of the lists of results that \<open>run_all_jobs\<close> handed to the
  Notifier.
\<close>

record state =
  status :: status_doc
  log_lines :: "log_event list"
  status_file :: file_state
  written :: "status_doc list"
  spawned :: "string list list"
  ticks :: nat
  smtp_trace :: "smtp_action list"
  notified :: "run_result list list"

section \<open>Statements that may raise\<close>

type_synonym 'a io = "state \<Rightarrow> (exn + 'a) \<times> state"

definition io_return :: "'a \<Rightarrow> 'a io" where
  "io_return x = (\<lambda>st. (Inr x, st))"

definition io_raise :: "exn \<Rightarrow> 'a io" where
  "io_raise e = (\<lambda>st. (Inl e, st))"

definition io_bind :: "'a io \<Rightarrow> ('a \<Rightarrow> 'b io) \<Rightarrow> 'b io" where
  "io_bind m f = (\<lambda>st. case m st of (Inl e, st') \<Rightarrow> (Inl e, st') | (Inr x, st') \<Rightarrow> f x st')"

text \<open>\<open>try: m except: h\<close>; the handler decides which exceptions it lets through.\<close>

definition io_try :: "'a io \<Rightarrow> (exn \<Rightarrow> 'a io) \<Rightarrow> 'a io" where
  "io_try m h = (\<lambda>st. case m st of (Inl e, st') \<Rightarrow> h e st' | (Inr x, st') \<Rightarrow> (Inr x, st'))"

definition io_lift :: "exn + 'a \<Rightarrow> 'a io" where
  "io_lift r = (\<lambda>st. (r, st))"

definition logging :: "log_event \<Rightarrow> unit io" where
  "logging ev = (\<lambda>st. (Inr (), st\<lparr>log_lines := log_lines st @ [ev]\<rparr>))"

text \<open>\<open>datetime.datetime.now()\<close>\<close>

definition now :: "env \<Rightarrow> timestamp io" where
  "now env = (\<lambda>st. (Inr (clock env (ticks st)), st\<lparr>ticks := Suc (ticks st)\<rparr>))"

text \<open>\<open>d[key]\<close> for a key that may be absent\<close>

definition subscript :: "string \<Rightarrow> 'a option \<Rightarrow> 'a io" where
  "subscript key v = (case v of None \<Rightarrow> io_raise (KeyError key) | Some x \<Rightarrow> io_return x)"

text \<open>Truth value of a string that may be absent: \<open>None\<close> and \<open>''\<close> are false.\<close>

definition truthy :: "string option \<Rightarrow> bool" where
  "truthy v = (case v of None \<Rightarrow> False | Some s \<Rightarrow> s \<noteq> [])"

section \<open>StatusStore: \<open>load_status\<close> and \<open>save_status\<close>\<close>

text \<open>\<open>with open(self.status_file, 'w') as f: json.dump(self.status, f, ...)\<close>\<close>

definition write_status :: "env \<Rightarrow> unit io" where
  "write_status env = (\<lambda>st.
     let d = status st; st' = st\<lparr>written := written st @ [d]\<rparr>
     in case write_outcome env (length (written st)) of
          Written \<Rightarrow> (Inr (), st'\<lparr>status_file := Stored d\<rparr>)
        | OpenFailed m \<Rightarrow> (Inl (OtherError m), st')
        | DumpFailed m \<Rightarrow> (Inl (OtherError m), st'\<lparr>status_file := Unreadable m\<rparr>))"

definition save_status :: "env \<Rightarrow> unit io" where
  "save_status env =
     io_try (write_status env)
       (\<lambda>e. if is_Exception e then logging (StatusSaveFailed (str_exn e)) else io_raise e)"

text \<open>\<open>with open(self.status_file, 'r') as f: self.status = json.load(f)\<close>\<close>

definition read_status :: "unit io" where
  "read_status = (\<lambda>st.
     case status_file st of
       Missing \<Rightarrow> (Inl FileNotFoundError, st)
     | Unreadable m \<Rightarrow> (Inl (OtherError m), st)
     | Stored d \<Rightarrow> (Inr (), st\<lparr>status := d\<rparr>))"

definition set_status :: "status_doc \<Rightarrow> unit io" where
  "set_status d = (\<lambda>st. (Inr (), st\<lparr>status := d\<rparr>))"

definition load_status :: "env \<Rightarrow> unit io" where
  "load_status env =
     io_try read_status
       (\<lambda>e. if e = FileNotFoundError
            then io_bind (set_status default_status) (\<lambda>_. save_status env)
            else if is_Exception e
            then io_bind (logging (StatusLoadFailed (str_exn e)))
                   (\<lambda>_. set_status default_status)
            else io_raise e)"

section \<open>JobRunner: \<open>run_rsync\<close>\<close>

text \<open>\<open>self.config.get('settings', {}).get(key)\<close>\<close>

definition setting :: "config \<Rightarrow> (settings \<Rightarrow> 'a option) \<Rightarrow> 'a option" where
  "setting cfg key = (case settings cfg of None \<Rightarrow> None | Some s \<Rightarrow> key s)"

text \<open>The command line, built as the source builds it.\<close>

definition build_cmd :: "config \<Rightarrow> job \<Rightarrow> string list" where
  "build_cmd cfg job =
     [''rsync'']
     @ (case setting cfg ssh_key of
          Some key \<Rightarrow>
            if key \<noteq> []
            then [''-e'', ''ssh -i '' @ key @ '' -o StrictHostKeyChecking=no'']
            else [''-e'', ''ssh -o StrictHostKeyChecking=no'']
        | None \<Rightarrow> [''-e'', ''ssh -o StrictHostKeyChecking=no''])
     @ split_ws (case setting cfg rsync_options of
                   None \<Rightarrow> ''-avz --delete --stats''
                 | Some opts \<Rightarrow> opts)
     @ concat (map (\<lambda>x. [''--exclude'', x])
                 (case exclude job of None \<Rightarrow> [] | Some xs \<Rightarrow> xs))
     @ [source job, destination job]"

text \<open>\<open>subprocess.run(cmd, capture_output=True, text=True, timeout=3600)\<close>\<close>

definition subprocess_run :: "env \<Rightarrow> string list \<Rightarrow> completed io" where
  "subprocess_run env cmd = (\<lambda>st.
     let st' = st\<lparr>spawned := spawned st @ [cmd]\<rparr>
     in case spawn env (length (spawned st)) cmd of
          Exited rc so se \<Rightarrow> (Inr \<lparr>returncode = rc, out = so, err = se\<rparr>, st')
        | Timeout \<Rightarrow> (Inl TimeoutExpired, st')
        | Failure m \<Rightarrow> (Inl (OtherError m), st'))"

text \<open>\<open>self.status['jobs'][name] = job_status\<close>\<close>

definition record_job :: "string \<Rightarrow> run_result \<Rightarrow> unit io" where
  "record_job n r = (\<lambda>st.
     (Inr (), st\<lparr>status := (status st)\<lparr>jobs := (jobs (status st))(n \<mapsto> r)\<rparr>\<rparr>))"

definition run_rsync :: "config \<Rightarrow> env \<Rightarrow> job \<Rightarrow> run_result io" where
  "run_rsync cfg env job =
     (let cmd = build_cmd cfg job
      in io_bind (logging (SyncStarting (name job) (join_sp cmd))) (\<lambda>_.
         io_bind (now env) (\<lambda>start_time.
         io_try
           (io_bind (subprocess_run env cmd) (\<lambda>result.
            io_bind (now env) (\<lambda>end_time.
            io_bind (io_lift (parse_rsync_stats (out result))) (\<lambda>sts.
            let job_status =
                  \<lparr>name = name job, source = source job, destination = destination job,
                   job_last_run = start_time,
                   duration = end_time - start_time,
                   success = (returncode result = 0),
                   return_code = returncode result,
                   error = None,
                   stats = sts,
                   stdout = out result,
                   stderr = err result\<rparr>
            in io_bind (record_job (name job) job_status) (\<lambda>_.
               io_bind
                 (if returncode result = 0
                  then logging (JobCompleted (name job) (end_time - start_time))
                  else io_bind (logging (JobFailed (name job) (returncode result)))
                         (\<lambda>_. logging (JobErrorOutput (err result)))) (\<lambda>_.
               io_return job_status))))))
           (\<lambda>e. if e = TimeoutExpired
                then io_bind (logging (JobTimedOut (name job))) (\<lambda>_.
                     let job_status =
                           \<lparr>name = name job, source = source job,
                            destination = destination job,
                            job_last_run = start_time,
                            duration = 3600,
                            success = False,
                            return_code = - 1,
                            error = Some ''Timeout after 1 hour'',
                            stats = Map.empty,
                            stdout = [],
                            stderr = ''Process timed out''\<rparr>
                     in io_bind (record_job (name job) job_status) (\<lambda>_.
                        io_return job_status))
                else if is_Exception e
                then io_bind (logging (JobException (name job) (str_exn e))) (\<lambda>_.
                     let job_status =
                           \<lparr>name = name job, source = source job,
                            destination = destination job,
                            job_last_run = start_time,
                            duration = 0,
                            success = False,
                            return_code = - 1,
                            error = Some (str_exn e),
                            stats = Map.empty,
                            stdout = [],
                            stderr = str_exn e\<rparr>
                     in io_bind (record_job (name job) job_status) (\<lambda>_.
                        io_return job_status))
                else io_raise e))))"

section \<open>Notifier: \<open>send_notification\<close>\<close>

text \<open>\<open>self.config.get('settings', {}).get('notification', {})\<close>: the empty dictionary has
  no key.\<close>

definition notification_config :: "config \<Rightarrow> notification" where
  "notification_config cfg =
     (case setting cfg notification of
        None \<Rightarrow> \<lparr>email = None, smtp_user = None, smtp_pass = None,
                 smtp_server = None, smtp_port = None\<rparr>
      | Some n \<Rightarrow> n)"

text \<open>The bullet U+2022 that starts each entry of the body, as its UTF-8 bytes.\<close>

definition bullet :: string where
  "bullet = [CHR 0xE2, CHR 0x80, CHR 0xA2]"

definition body_entry :: "run_result \<Rightarrow> string" where
  "body_entry job =
     bullet @ '' '' @ name job @ [CHR 0x0A]
     @ ''  Source: '' @ source job @ [CHR 0x0A]
     @ ''  Error: '' @ (case error job of None \<Rightarrow> ''Unknown error'' | Some e \<Rightarrow> e)
     @ [CHR 0x0A, CHR 0x0A]"

text \<open>One call on the mail relay: recorded, then it fails or not.\<close>

definition smtp_do :: "env \<Rightarrow> smtp_action \<Rightarrow> unit io" where
  "smtp_do env a = (\<lambda>st.
     let st' = st\<lparr>smtp_trace := smtp_trace st @ [a]\<rparr>
     in case smtp_error env (length (smtp_trace st)) a of
          None \<Rightarrow> (Inr (), st')
        | Some m \<Rightarrow> (Inl (OtherError m), st'))"

text \<open>The body of the \<open>try\<close>.\<close>

definition notify_try :: "config \<Rightarrow> env \<Rightarrow> run_result list \<Rightarrow> unit io" where
  "notify_try cfg env failed_jobs =
     (let nc = notification_config cfg
      in if \<not> truthy (email nc)
         then logging NotifySkipped
         else
           io_bind (subscript ''smtp_user'' (smtp_user nc)) (\<lambda>from.
           io_bind (subscript ''email'' (email nc)) (\<lambda>to.
           let msg = \<lparr>msg_from = from, msg_to = to,
                      msg_subject = ''Backup Sync Failed - '' @ str_nat (length failed_jobs)
                                    @ '' job(s)'',
                      msg_body = ''The following backup jobs failed:'' @ [CHR 0x0A, CHR 0x0A]
                                 @ concat (map body_entry failed_jobs)\<rparr>
           in io_bind (subscript ''smtp_server'' (smtp_server nc)) (\<lambda>host.
              io_bind (subscript ''smtp_port'' (smtp_port nc)) (\<lambda>port.
              io_bind (smtp_do env (Connect host port)) (\<lambda>_.
              io_bind (smtp_do env StartTLS) (\<lambda>_.
              io_bind (subscript ''smtp_user'' (smtp_user nc)) (\<lambda>user.
              io_bind (subscript ''smtp_pass'' (smtp_pass nc)) (\<lambda>pass.
              io_bind (smtp_do env (Login user pass)) (\<lambda>_.
              io_bind (smtp_do env (SendMessage msg)) (\<lambda>_.
              io_bind (smtp_do env Quit) (\<lambda>_.
              logging NotifySent))))))))))))"

definition send_notification :: "config \<Rightarrow> env \<Rightarrow> run_result list \<Rightarrow> unit io" where
  "send_notification cfg env failed_jobs =
     (if failed_jobs = [] then io_return ()
      else io_try (notify_try cfg env failed_jobs)
             (\<lambda>e. if is_Exception e then logging (NotifyFailed (str_exn e))
                  else io_raise e))"

section \<open>Orchestrator: \<open>run_all_jobs\<close>\<close>

text \<open>\<open>job.get('enabled', True)\<close>\<close>

definition is_enabled :: "job \<Rightarrow> bool" where
  "is_enabled job = (case enabled job of None \<Rightarrow> True | Some b \<Rightarrow> b)"

text \<open>The loop over \<open>self.config['sync_jobs']\<close>; the accumulator is the pair
  \<open>(failed_jobs, successful_jobs)\<close>.\<close>

fun run_jobs ::
  "config \<Rightarrow> env \<Rightarrow> job list \<Rightarrow> run_result list \<times> run_result list
     \<Rightarrow> (run_result list \<times> run_result list) io" where
  "run_jobs cfg env [] acc st = (Inr acc, st)"
| "run_jobs cfg env (job # rest) (failed_jobs, successful_jobs) st =
     (if \<not> is_enabled job
      then (case logging (SkippingDisabled (name job)) st of
              (Inl e, st') \<Rightarrow> (Inl e, st')
            | (Inr _, st') \<Rightarrow> run_jobs cfg env rest (failed_jobs, successful_jobs) st')
      else (case run_rsync cfg env job st of
              (Inl e, st') \<Rightarrow> (Inl e, st')
            | (Inr job_result, st') \<Rightarrow>
                if success job_result
                then run_jobs cfg env rest (failed_jobs, successful_jobs @ [job_result]) st'
                else run_jobs cfg env rest (failed_jobs @ [job_result], successful_jobs) st'))"

text \<open>The update of the overall status after the loop.\<close>

definition finalize_run :: "timestamp \<Rightarrow> nat \<Rightarrow> nat \<Rightarrow> unit io" where
  "finalize_run start_time n_successful n_failed = (\<lambda>st.
     (Inr (),
      st\<lparr>status := (status st)
           \<lparr>last_run := Some start_time,
            total_runs := Some ((case total_runs (status st) of None \<Rightarrow> 0 | Some n \<Rightarrow> n) + 1),
            last_summary := Some \<lparr>successful = n_successful, failed = n_failed,
                                  total_count = n_successful + n_failed\<rparr>\<rparr>\<rparr>))"

text \<open>The call \<open>self.send_notification(failed_jobs)\<close> of \<open>run_all_jobs\<close>: the list handed
  over is put on the trace, and \<open>send_notification\<close> runs on that list.\<close>

definition call_send_notification :: "config \<Rightarrow> env \<Rightarrow> run_result list \<Rightarrow> unit io" where
  "call_send_notification cfg env failed_jobs = (\<lambda>st.
     send_notification cfg env failed_jobs (st\<lparr>notified := notified st @ [failed_jobs]\<rparr>))"

definition run_all_jobs :: "config \<Rightarrow> env \<Rightarrow> bool io" where
  "run_all_jobs cfg env =
     io_bind (logging BatchStarting) (\<lambda>_.
     io_bind (now env) (\<lambda>start_time.
     io_bind (run_jobs cfg env (sync_jobs cfg) ([], [])) (\<lambda>(failed_jobs, successful_jobs).
     io_bind (finalize_run start_time (length successful_jobs) (length failed_jobs)) (\<lambda>_.
     io_bind (save_status env) (\<lambda>_.
     io_bind (if failed_jobs \<noteq> [] then call_send_notification cfg env failed_jobs
              else io_return ()) (\<lambda>_.
     io_bind (now env) (\<lambda>end_time.
     io_bind (logging (BatchCompleted (end_time - start_time))) (\<lambda>_.
     io_bind (logging (BatchResults (length successful_jobs) (length failed_jobs))) (\<lambda>_.
     io_return (length failed_jobs = 0))))))))))"

section \<open>The program\<close>

definition load_config :: "env \<Rightarrow> config io" where
  "load_config env =
     (case config_file env of
        Inr cfg \<Rightarrow> io_bind (logging ConfigLoaded) (\<lambda>_. io_return cfg)
      | Inl m \<Rightarrow> io_bind (logging (ConfigLoadFailed m)) (\<lambda>_. io_raise (SystemExit 1)))"

text \<open>\<open>BackupSync()\<close>: the clock is read for the name of the log file, then the
  configuration and the status are loaded.  Creating the log directory and the log sink
  is not modelled.\<close>

definition init :: "env \<Rightarrow> config io" where
  "init env =
     io_bind (now env) (\<lambda>_.
     io_bind (load_config env) (\<lambda>cfg.
     io_bind (load_status env) (\<lambda>_.
     io_return cfg)))"

definition main :: "env \<Rightarrow> unit io" where
  "main env =
     io_bind (init env) (\<lambda>cfg.
     io_bind (run_all_jobs cfg env) (\<lambda>success.
     io_raise (SystemExit (if success then 0 else 1))))"

text \<open>The exit status of the process: the code of \<open>sys.exit\<close>, 1 for any other exception
  that reaches the top, 0 when the program runs to its end.\<close>

fun exit_status :: "exn + unit \<Rightarrow> int" where
  "exit_status (Inl (SystemExit c)) = c"
| "exit_status (Inl _) = 1"
| "exit_status (Inr _) = 0"

section \<open>Notions used in the properties\<close>

text \<open>A child process succeeded when it exited with return code 0.\<close>

fun proc_ok :: "proc_outcome \<Rightarrow> bool" where
  "proc_ok (Exited rc _ _) = (rc = 0)"
| "proc_ok _ = False"

text \<open>The outcomes of the child processes of a list of jobs run one after the other, the
  first of them being child number \<open>n\<close>.\<close>

fun outcomes :: "config \<Rightarrow> env \<Rightarrow> nat \<Rightarrow> job list \<Rightarrow> proc_outcome list" where
  "outcomes cfg env n [] = []"
| "outcomes cfg env n (j # js) = spawn env n (build_cmd cfg j) # outcomes cfg env (Suc n) js"

text \<open>\<open>N\<close> calls of \<open>run_all_jobs\<close> one after the other on the same object.\<close>

fun batches :: "config \<Rightarrow> env \<Rightarrow> nat \<Rightarrow> unit io" where
  "batches cfg env 0 st = (Inr (), st)"
| "batches cfg env (Suc n) st =
     (case run_all_jobs cfg env st of
        (Inl e, st') \<Rightarrow> (Inl e, st')
      | (Inr _, st') \<Rightarrow> batches cfg env n st')"

text \<open>\<open>N\<close> runs of the program one after the other in the same world: each run starts
  from what the run before left in the status file.\<close>

fun invocations :: "env \<Rightarrow> nat \<Rightarrow> state \<Rightarrow> state" where
  "invocations env 0 st = st"
| "invocations env (Suc n) st = invocations env n (snd (main env st))"

text \<open>The \<open>total_runs\<close> that a run of the program starts from, given the status file.\<close>

fun file_runs :: "file_state \<Rightarrow> int" where
  "file_runs (Stored d) = (case total_runs d of None \<Rightarrow> 0 | Some n \<Rightarrow> n)"
| "file_runs _ = 0"

text \<open>What the specification gives as the value of a recognised line: the text after the
  first colon of the line, trimmed.\<close>

definition after_first_colon :: "string \<Rightarrow> string" where
  "after_first_colon line = strip (drop 1 (dropWhile (\<lambda>c. c \<noteq> CHR '':'') line))"

text \<open>What a step leaves alone: everything but the log and the trace of the mail relay.\<close>

definition frame :: "state \<Rightarrow> state \<Rightarrow> bool" where
  "frame st st' \<longleftrightarrow> status st' = status st \<and> spawned st' = spawned st
     \<and> written st' = written st \<and> status_file st' = status_file st \<and> ticks st' = ticks st
     \<and> notified st' = notified st"

text \<open>A step is benign when it keeps the frame and raises nothing that
  \<open>except Exception\<close> lets through.\<close>

definition benign :: "state \<Rightarrow> (exn + 'a) \<times> state \<Rightarrow> bool" where
  "benign st p \<longleftrightarrow>
     frame st (snd p) \<and> (case fst p of Inl e \<Rightarrow> is_Exception e | Inr _ \<Rightarrow> True)"

text \<open>The configuration with the \<open>notification\<close> key of its settings replaced.\<close>

definition set_notification :: "config \<Rightarrow> notification option \<Rightarrow> config" where
  "set_notification cfg n =
     cfg\<lparr>settings :=
           Some ((case settings cfg of
                    None \<Rightarrow> \<lparr>ssh_key = None, rsync_options = None, notification = None\<rparr>
                  | Some s \<Rightarrow> s)\<lparr>notification := n\<rparr>)\<rparr>"

subsection \<open>Example inputs\<close>

definition ex_job :: "string \<Rightarrow> bool option \<Rightarrow> job" where
  "ex_job n en =
     \<lparr>name = n, source = ''/data/'' @ n, destination = ''backup:/srv/'' @ n,
      exclude = Some [''*.tmp''], enabled = en\<rparr>"

definition ex_cfg :: config where
  "ex_cfg = \<lparr>sync_jobs = [ex_job ''a'' None, ex_job ''b'' (Some False), ex_job ''c'' (Some True)],
             settings = None\<rparr>"

text \<open>An environment in which every child process has the given outcome, every write
  succeeds and the mail relay accepts everything.\<close>

definition ex_env :: "proc_outcome \<Rightarrow> env" where
  "ex_env oc =
     \<lparr>clock = (\<lambda>n. real n), spawn = (\<lambda>n cmd. oc), write_outcome = (\<lambda>n. Written),
      smtp_error = (\<lambda>n a. None), config_file = Inr ex_cfg\<rparr>"

definition ex_state :: "file_state \<Rightarrow> state" where
  "ex_state f =
     \<lparr>status = default_status, log_lines = [], status_file = f, written = [],
      spawned = [], ticks = 0, smtp_trace = [], notified = []\<rparr>"

text \<open>A failed result, and a configuration whose notification settings name a recipient
  and nothing else.\<close>

definition ex_result :: run_result where
  "ex_result =
     \<lparr>name = ''a'', source = ''/data/a'', destination = ''backup:/srv/a'',
      job_last_run = 0, duration = 3600, success = False, return_code = - 1,
      error = Some ''Timeout after 1 hour'', stats = Map.empty, stdout = [],
      stderr = ''Process timed out''\<rparr>"

definition ex_cfg_mail :: config where
  "ex_cfg_mail =
     \<lparr>sync_jobs = [ex_job ''a'' None],
      settings = Some \<lparr>ssh_key = None, rsync_options = None,
                       notification = Some \<lparr>email = Some ''ops@example.org'', smtp_user = None,
                                              smtp_pass = None, smtp_server = None,
                                              smtp_port = None\<rparr>\<rparr>\<rparr>"

section \<open>Properties of the StatsParser\<close>

lemma startswith_mem: "startswith s p \<Longrightarrow> c \<in> set p \<Longrightarrow> c \<in> set s"
  by (induction s p rule: startswith.induct) auto

lemma contains_mem: "contains s p \<Longrightarrow> c \<in> set p \<Longrightarrow> c \<in> set s"
  by (induction s) (auto dest: startswith_mem)

lemma split_on_nonempty: "split_on c s \<noteq> []"
  by (induction s) (auto split: list.splits)

lemma split_on_two: "c \<in> set s \<Longrightarrow> \<exists>a b r. split_on c s = a # b # r"
proof (induction s)
  case Nil
  then show ?case by simp
next
  case (Cons x xs)
  show ?case
  proof (cases "x = c")
    case True
    then show ?thesis using split_on_nonempty[of c xs] by (cases "split_on c xs") auto
  next
    case False
    with Cons show ?thesis by auto
  qed
qed

lemma field1_colon: "CHR '':'' \<in> set line \<Longrightarrow> \<exists>v. field1 line = Inr v"
  using split_on_two[of "CHR '':''" line] by (auto simp: field1_def)

text \<open>A line that carries a label carries a colon, so the second field is there: the
  parser raises nothing.\<close>

lemma parse_line_total: "\<exists>st'. parse_line st line = Inr st'"
  using field1_colon[of line]
  by (auto simp: parse_line_def set_stat_def dest!: contains_mem[where c="CHR '':''"])

lemma parse_lines_total: "\<exists>st'. parse_lines st ls = Inr st'"
proof (induction ls arbitrary: st)
  case Nil
  show ?case by simp
next
  case (Cons l ls)
  obtain st1 where "parse_line st l = Inr st1" using parse_line_total by blast
  with Cons[of st1] show ?case by simp
qed

lemma parse_rsync_stats_total: "\<exists>s. parse_rsync_stats output = Inr s"
  by (simp add: parse_rsync_stats_def parse_lines_total)

section \<open>Properties of the JobRunner\<close>

lemmas io_defs = io_bind_def io_try_def io_return_def io_raise_def io_lift_def logging_def now_def
  record_job_def subprocess_run_def

lemma run_rsync_returns:
  "\<exists>r st'. run_rsync cfg env job st = (Inr r, st')
     \<and> name r = name job \<and> source r = source job \<and> destination r = destination job
     \<and> success r = proc_ok (spawn env (length (spawned st)) (build_cmd cfg job))
     \<and> spawned st' = spawned st @ [build_cmd cfg job]
     \<and> total_runs (status st') = total_runs (status st)
     \<and> written st' = written st \<and> status_file st' = status_file st
     \<and> smtp_trace st' = smtp_trace st"
proof (cases "spawn env (length (spawned st)) (build_cmd cfg job)")
  case (Exited rc so se)
  obtain s where "parse_rsync_stats so = Inr s" using parse_rsync_stats_total by blast
  with Exited show ?thesis
    by (simp add: run_rsync_def Let_def io_defs)
next
  case Timeout
  then show ?thesis by (simp add: run_rsync_def Let_def io_defs)
next
  case (Failure m)
  then show ?thesis by (simp add: run_rsync_def Let_def io_defs)
qed

text \<open>
  C2.  When the child process of a job exceeds the timeout (\<open>subprocess.run\<close> raises
  \<open>TimeoutExpired\<close>), \<open>run_rsync\<close> returns a result with \<open>success\<close> false, return code
  \<open>-1\<close>, error \<open>Timeout after 1 hour\<close>, duration 3600 (the timeout) and no statistics;
  the result is also the job's entry of the status.
\<close>

theorem run_rsync_timeout:
  assumes "spawn env (length (spawned st)) (build_cmd cfg job) = Timeout"
  shows "\<exists>r st'. run_rsync cfg env job st = (Inr r, st')
     \<and> success r = False \<and> return_code r = - 1
     \<and> error r = Some ''Timeout after 1 hour'' \<and> duration r = 3600
     \<and> stats r = Map.empty
     \<and> jobs (status st') (name job) = Some r"
  using assms by (simp add: run_rsync_def Let_def io_defs)

theorem run_rsync_timeout_witness:
  "spawn (ex_env Timeout) (length (spawned (ex_state Missing)))
       (build_cmd ex_cfg (ex_job ''a'' None)) = Timeout
   \<and> (\<exists>r st'. run_rsync ex_cfg (ex_env Timeout) (ex_job ''a'' None) (ex_state Missing)
                 = (Inr r, st')
        \<and> success r = False \<and> return_code r = - 1
        \<and> error r = Some ''Timeout after 1 hour'' \<and> duration r = 3600
        \<and> stats r = Map.empty
        \<and> jobs (status st') (name (ex_job ''a'' None)) = Some r)"
  using run_rsync_timeout[of "ex_env Timeout" "ex_state Missing" ex_cfg "ex_job ''a'' None"]
  by (simp add: ex_env_def)

section \<open>Steps that keep the frame\<close>

lemma save_status_returns:
  "\<exists>st'. save_status env st = (Inr (), st') \<and> status st' = status st
     \<and> spawned st' = spawned st \<and> ticks st' = ticks st \<and> smtp_trace st' = smtp_trace st
     \<and> notified st' = notified st
     \<and> (write_outcome env (length (written st)) = Written
          \<longrightarrow> status_file st' = Stored (status st))"
  by (cases "write_outcome env (length (written st))")
     (simp_all add: save_status_def write_status_def Let_def io_defs)

lemma smtp_do_benign: "benign st (smtp_do env a st)"
  by (simp add: smtp_do_def Let_def benign_def frame_def split: option.splits)

lemma subscript_benign: "benign st (subscript k v st)"
  by (simp add: subscript_def io_defs benign_def frame_def split: option.splits)

lemma logging_benign: "benign st (logging ev st)"
  by (simp add: logging_def benign_def frame_def)

lemma io_bind_benign:
  assumes "benign st (m st)" and "\<And>x s1. benign s1 (f x s1)"
  shows "benign st (io_bind m f st)"
proof (cases "m st")
  case (Pair x s1)
  show ?thesis
  proof (cases x)
    case (Inl e)
    with Pair assms(1) show ?thesis by (simp add: io_bind_def benign_def)
  next
    case (Inr y)
    have "benign s1 (f y s1)" by (rule assms(2))
    with Pair Inr assms(1) show ?thesis by (simp add: io_bind_def benign_def frame_def)
  qed
qed

lemma notify_try_benign: "benign st (notify_try cfg env fj st)"
proof (cases "truthy (email (notification_config cfg))")
  case False
  then show ?thesis by (simp add: notify_try_def Let_def logging_benign)
next
  case True
  then show ?thesis
    unfolding notify_try_def Let_def
    by (simp only: not_True_eq_False if_False)
       (intro io_bind_benign smtp_do_benign subscript_benign logging_benign)
qed

lemma send_notification_returns:
  "\<exists>st'. send_notification cfg env fj st = (Inr (), st') \<and> frame st st'"
proof (cases "fj = []")
  case True
  then show ?thesis by (simp add: send_notification_def io_return_def frame_def)
next
  case False
  obtain r s1 where t: "notify_try cfg env fj st = (r, s1)" by (cases "notify_try cfg env fj st")
  have b: "benign st (r, s1)" using notify_try_benign[of st cfg env fj] t by simp
  show ?thesis
  proof (cases r)
    case (Inr u)
    with False t b show ?thesis by (simp add: send_notification_def io_try_def benign_def)
  next
    case (Inl e)
    with False t b show ?thesis
      by (simp add: send_notification_def io_try_def logging_def frame_def benign_def)
  qed
qed

section \<open>Properties of the Orchestrator\<close>

text \<open>The loop returns: its state and its two lists, in terms of the list \<open>rs\<close> of the
  results of the enabled jobs in the order of the configuration.\<close>

lemma run_jobs_spec:
  "\<exists>rs st'. run_jobs cfg env js (F, S) st
       = (Inr (F @ filter (\<lambda>r. \<not> success r) rs, S @ filter success rs), st')
     \<and> map name rs = map name (filter is_enabled js)
     \<and> map source rs = map source (filter is_enabled js)
     \<and> map success rs = map proc_ok (outcomes cfg env (length (spawned st)) (filter is_enabled js))
     \<and> spawned st' = spawned st @ map (build_cmd cfg) (filter is_enabled js)
     \<and> total_runs (status st') = total_runs (status st)
     \<and> written st' = written st \<and> status_file st' = status_file st
     \<and> smtp_trace st' = smtp_trace st"
proof (induction js arbitrary: F S st)
  case Nil
  show ?case by (rule exI[of _ "[]"]) simp
next
  case (Cons j js)
  show ?case
  proof (cases "is_enabled j")
    case False
    let ?st1 = "st\<lparr>log_lines := log_lines st @ [SkippingDisabled (name j)]\<rparr>"
    from Cons[of F S ?st1] obtain rs st' where
      "run_jobs cfg env js (F, S) ?st1
         = (Inr (F @ filter (\<lambda>r. \<not> success r) rs, S @ filter success rs), st')
       \<and> map name rs = map name (filter is_enabled js)
       \<and> map source rs = map source (filter is_enabled js)
       \<and> map success rs = map proc_ok (outcomes cfg env (length (spawned ?st1)) (filter is_enabled js))
       \<and> spawned st' = spawned ?st1 @ map (build_cmd cfg) (filter is_enabled js)
       \<and> total_runs (status st') = total_runs (status ?st1)
       \<and> written st' = written ?st1 \<and> status_file st' = status_file ?st1
       \<and> smtp_trace st' = smtp_trace ?st1"
      by blast
    with False show ?thesis
      by (intro exI[of _ rs] exI[of _ st']) (simp add: logging_def)
  next
    case True
    obtain r st1 where r: "run_rsync cfg env j st = (Inr r, st1)"
      "name r = name j" "source r = source j"
      "success r = proc_ok (spawn env (length (spawned st)) (build_cmd cfg j))"
      "spawned st1 = spawned st @ [build_cmd cfg j]"
      "total_runs (status st1) = total_runs (status st)"
      "written st1 = written st" "status_file st1 = status_file st"
      "smtp_trace st1 = smtp_trace st"
      using run_rsync_returns[of cfg env j st] by blast
    let ?F = "if success r then F else F @ [r]"
    let ?S = "if success r then S @ [r] else S"
    from Cons[of ?F ?S st1] obtain rs st' where IH:
      "run_jobs cfg env js (?F, ?S) st1
         = (Inr (?F @ filter (\<lambda>r. \<not> success r) rs, ?S @ filter success rs), st')"
       "map name rs = map name (filter is_enabled js)"
       "map source rs = map source (filter is_enabled js)"
       "map success rs = map proc_ok (outcomes cfg env (length (spawned st1)) (filter is_enabled js))"
       "spawned st' = spawned st1 @ map (build_cmd cfg) (filter is_enabled js)"
       "total_runs (status st') = total_runs (status st1)"
       "written st' = written st1" "status_file st' = status_file st1"
       "smtp_trace st' = smtp_trace st1"
      by blast
    show ?thesis
      using True r IH
      by (intro exI[of _ "r # rs"] exI[of _ st']) (auto split: if_splits)
  qed
qed

text \<open>Neither a job nor the loop hands anything to the Notifier.\<close>

lemma run_rsync_notified: "notified (snd (run_rsync cfg env job st)) = notified st"
proof (cases "spawn env (length (spawned st)) (build_cmd cfg job)")
  case (Exited rc so se)
  obtain s where "parse_rsync_stats so = Inr s" using parse_rsync_stats_total by blast
  with Exited show ?thesis
    by (simp add: run_rsync_def Let_def io_defs)
next
  case Timeout
  then show ?thesis by (simp add: run_rsync_def Let_def io_defs)
next
  case (Failure m)
  then show ?thesis by (simp add: run_rsync_def Let_def io_defs)
qed

lemma run_jobs_notified: "notified (snd (run_jobs cfg env js (F, S) st)) = notified st"
proof (induction js arbitrary: F S st)
  case Nil
  show ?case by simp
next
  case (Cons j js)
  show ?case
  proof (cases "is_enabled j")
    case False
    then show ?thesis
      using Cons[of F S "st\<lparr>log_lines := log_lines st @ [SkippingDisabled (name j)]\<rparr>"]
      by (simp add: logging_def)
  next
    case True
    obtain r st1 where r: "run_rsync cfg env j st = (Inr r, st1)"
      using run_rsync_returns[of cfg env j st] by blast
    then have n: "notified st1 = notified st"
      using run_rsync_notified[of cfg env j st] by simp
    show ?thesis
      using True r n Cons[of F "S @ [r]" st1] Cons[of "F @ [r]" S st1]
      by simp
  qed
qed

lemma run_all_jobs_unfold:
  assumes "run_jobs cfg env (sync_jobs cfg) ([], [])
             (st\<lparr>log_lines := log_lines st @ [BatchStarting], ticks := Suc (ticks st)\<rparr>)
           = (Inr (F, S), st1)"
    and "save_status env (st1\<lparr>status := (status st1)
           \<lparr>last_run := Some (clock env (ticks st)),
            total_runs := Some ((case total_runs (status st1) of None \<Rightarrow> 0 | Some n \<Rightarrow> n) + 1),
            last_summary := Some \<lparr>successful = length S, failed = length F,
                                  total_count = length S + length F\<rparr>\<rparr>\<rparr>) = (Inr (), st3)"
    and "(if F \<noteq> [] then call_send_notification cfg env F else io_return ()) st3 = (Inr (), st4)"
  shows "run_all_jobs cfg env st
      = (Inr (length F = 0),
         st4\<lparr>ticks := Suc (ticks st4),
             log_lines := log_lines st4 @ [BatchCompleted (clock env (ticks st4) - clock env (ticks st)),
                           BatchResults (length S) (length F)]\<rparr>)"
  using assms
  by (cases "F = []")
     (simp_all add: run_all_jobs_def io_bind_def logging_def now_def finalize_run_def io_return_def)


lemma run_all_jobs_spec:
  "\<exists>(rs :: run_result list) st'. run_all_jobs cfg env st = (Inr (filter (\<lambda>r. \<not> success r) rs = []), st')
     \<and> map name rs = map name (filter is_enabled (sync_jobs cfg))
     \<and> map source rs = map source (filter is_enabled (sync_jobs cfg))
     \<and> map success rs
         = map proc_ok (outcomes cfg env (length (spawned st)) (filter is_enabled (sync_jobs cfg)))
     \<and> spawned st' = spawned st @ map (build_cmd cfg) (filter is_enabled (sync_jobs cfg))
     \<and> total_runs (status st')
         = Some ((case total_runs (status st) of None \<Rightarrow> 0 | Some n \<Rightarrow> n) + 1)
     \<and> last_summary (status st')
         = Some \<lparr>successful = length (filter success rs),
                 failed = length (filter (\<lambda>r. \<not> success r) rs),
                 total_count = length (filter success rs)
                               + length (filter (\<lambda>r. \<not> success r) rs)\<rparr>
     \<and> (write_outcome env (length (written st)) = Written
          \<longrightarrow> status_file st' = Stored (status st'))
     \<and> notified st'
         = notified st @ (if filter (\<lambda>r. \<not> success r) rs = [] then []
                          else [filter (\<lambda>r. \<not> success r) rs])"
proof -
  let ?st0 = "st\<lparr>log_lines := log_lines st @ [BatchStarting], ticks := Suc (ticks st)\<rparr>"
  let ?js = "filter is_enabled (sync_jobs cfg)"
  obtain rs st1 where loop:
    "run_jobs cfg env (sync_jobs cfg) ([], []) ?st0
       = (Inr ([] @ filter (\<lambda>r. \<not> success r) rs, [] @ filter success rs), st1)"
    "map name rs = map name ?js" "map source rs = map source ?js"
    "map success rs = map proc_ok (outcomes cfg env (length (spawned ?st0)) ?js)"
    "spawned st1 = spawned ?st0 @ map (build_cmd cfg) ?js"
    "total_runs (status st1) = total_runs (status ?st0)"
    "written st1 = written ?st0"
    using run_jobs_spec[of cfg env "sync_jobs cfg" "[]" "[]" ?st0] by blast
  let ?F = "filter (\<lambda>r. \<not> success r) rs" and ?S = "filter success rs"
  let ?st2 = "st1\<lparr>status := (status st1)
           \<lparr>last_run := Some (clock env (ticks st)),
            total_runs := Some ((case total_runs (status st1) of None \<Rightarrow> 0 | Some n \<Rightarrow> n) + 1),
            last_summary := Some \<lparr>successful = length ?S, failed = length ?F,
                                  total_count = length ?S + length ?F\<rparr>\<rparr>\<rparr>"
  obtain st3 where save: "save_status env ?st2 = (Inr (), st3)" "status st3 = status ?st2"
    "spawned st3 = spawned ?st2"
    "write_outcome env (length (written ?st2)) = Written \<longrightarrow> status_file st3 = Stored (status ?st2)"
    "notified st3 = notified ?st2"
    using save_status_returns[of env ?st2] by blast
  have n1: "notified st1 = notified st"
    using run_jobs_notified[of cfg env "sync_jobs cfg" "[]" "[]" ?st0] loop(1) by simp
  obtain st4 where sent:
    "(if ?F \<noteq> [] then call_send_notification cfg env ?F else io_return ()) st3 = (Inr (), st4)"
    "status st4 = status st3" "spawned st4 = spawned st3" "status_file st4 = status_file st3"
    "notified st4 = notified st3 @ (if ?F = [] then [] else [?F])"
  proof (cases "?F = []")
    case True
    then show ?thesis using that[of st3] by (simp add: io_return_def)
  next
    case False
    let ?st3 = "st3\<lparr>notified := notified st3 @ [?F]\<rparr>"
    obtain s4 where "send_notification cfg env ?F ?st3 = (Inr (), s4)" "frame ?st3 s4"
      using send_notification_returns[of cfg env ?F ?st3] by blast
    with False show ?thesis
      using that[of s4] by (simp add: call_send_notification_def frame_def)
  qed
  have loop': "run_jobs cfg env (sync_jobs cfg) ([], []) ?st0 = (Inr (?F, ?S), st1)"
    using loop(1) by simp
  have run: "run_all_jobs cfg env st
      = (Inr (length ?F = 0),
         st4\<lparr>ticks := Suc (ticks st4),
             log_lines := log_lines st4 @ [BatchCompleted (clock env (ticks st4) - clock env (ticks st)),
                           BatchResults (length ?S) (length ?F)]\<rparr>)"
    by (rule run_all_jobs_unfold[OF loop' save(1) sent(1)])
  have st4: "status st4 = status ?st2" "spawned st4 = spawned st1"
    "write_outcome env (length (written st)) = Written \<longrightarrow> status_file st4 = Stored (status st4)"
    "notified st4 = notified st @ (if ?F = [] then [] else [?F])"
    using sent(2-5) save(2-5) loop(7) n1 by simp_all
  show ?thesis
    apply (rule exI[of _ rs])
    apply (rule exI)
    apply (rule conjI)
     apply (subst run)
     apply (simp only: length_0_conv)
    using loop(2-6) st4
    apply simp
    done
qed

lemma count_failed_eq:
  assumes "map f xs = map g ys"
  shows "length (filter (\<lambda>x. \<not> f x) xs) = length (filter (\<lambda>y. \<not> g y) ys)"
proof -
  have "length (filter (\<lambda>x. \<not> f x) xs) = length (filter Not (map f xs))"
    by (simp add: filter_map comp_def)
  also have "\<dots> = length (filter Not (map g ys))" using assms by simp
  also have "\<dots> = length (filter (\<lambda>y. \<not> g y) ys)"
    by (simp add: filter_map comp_def)
  finally show ?thesis .
qed

lemma load_status_returns:
  "\<exists>st'. load_status env st = (Inr (), st') \<and> spawned st' = spawned st"
  by (cases "status_file st"; cases "write_outcome env (length (written st))")
     (simp_all add: load_status_def read_status_def set_status_def save_status_def
        write_status_def Let_def io_defs)

lemma init_returns:
  assumes "config_file env = Inr cfg"
  shows "\<exists>st'. init env st = (Inr cfg, st') \<and> spawned st' = spawned st"
proof -
  let ?st1 = "st\<lparr>ticks := Suc (ticks st), log_lines := log_lines st @ [ConfigLoaded]\<rparr>"
  obtain st2 where l: "load_status env ?st1 = (Inr (), st2)" "spawned st2 = spawned ?st1"
    using load_status_returns[of env ?st1] by blast
  then show ?thesis using assms
    by (simp add: init_def load_config_def io_bind_def now_def logging_def io_return_def)
qed

text \<open>
  C1.  \<open>run_all_jobs\<close> returns true exactly when no child process of an enabled job
  failed (the number of enabled jobs whose child did not exit with 0 is zero); and once
  the configuration is loaded the process exits with status 0 when every enabled job
  succeeded, with status 1 otherwise.
\<close>

theorem run_all_jobs_outcome:
  "fst (run_all_jobs cfg env st)
     = Inr (length (filter (\<lambda>oc. \<not> proc_ok oc)
                     (outcomes cfg env (length (spawned st)) (filter is_enabled (sync_jobs cfg)))) = 0)
   \<and> (config_file env = Inr cfg \<longrightarrow>
        exit_status (fst (main env st))
          = (if list_all proc_ok
                  (outcomes cfg env (length (spawned st)) (filter is_enabled (sync_jobs cfg)))
             then 0 else 1))"
proof
  let ?os = "\<lambda>st. outcomes cfg env (length (spawned st)) (filter is_enabled (sync_jobs cfg))"
  have ret: "fst (run_all_jobs cfg env s)
               = Inr (length (filter (\<lambda>oc. \<not> proc_ok oc) (?os s)) = 0)" for s
  proof -
    obtain rs :: "run_result list" and st' where
      r: "run_all_jobs cfg env s = (Inr (filter (\<lambda>r. \<not> success r) rs = []), st')"
         "map success rs = map proc_ok (?os s)"
      using run_all_jobs_spec[of cfg env s] by blast
    have "length (filter (\<lambda>r. \<not> success r) rs) = length (filter (\<lambda>oc. \<not> proc_ok oc) (?os s))"
      using r(2) by (rule count_failed_eq)
    then have "(filter (\<lambda>r. \<not> success r) rs = [])
                 \<longleftrightarrow> (length (filter (\<lambda>oc. \<not> proc_ok oc) (?os s)) = 0)"
      by (metis length_0_conv)
    with r(1) show ?thesis by simp
  qed
  show "fst (run_all_jobs cfg env st) = Inr (length (filter (\<lambda>oc. \<not> proc_ok oc) (?os st)) = 0)"
    by (rule ret)
  show "config_file env = Inr cfg \<longrightarrow>
        exit_status (fst (main env st)) = (if list_all proc_ok (?os st) then 0 else 1)"
  proof
    assume c: "config_file env = Inr cfg"
    obtain s1 where i: "init env st = (Inr cfg, s1)" "spawned s1 = spawned st"
      using init_returns[OF c, of st] by blast
    obtain b s2 where m: "run_all_jobs cfg env s1 = (b, s2)" by (cases "run_all_jobs cfg env s1")
    have b: "b = Inr (length (filter (\<lambda>oc. \<not> proc_ok oc) (?os st)) = 0)"
      using ret[of s1] m i(2) by simp
    have "list_all proc_ok (?os st) \<longleftrightarrow> length (filter (\<lambda>oc. \<not> proc_ok oc) (?os st)) = 0"
      by (simp add: list_all_iff filter_empty_conv)
    then show "exit_status (fst (main env st)) = (if list_all proc_ok (?os st) then 0 else 1)"
      using i(1) m b by (simp add: main_def io_bind_def io_raise_def)
  qed
qed

theorem run_all_jobs_outcome_witness:
  "config_file (ex_env (Exited 1 [] [])) = Inr ex_cfg
   \<and> exit_status (fst (main (ex_env (Exited 1 [] [])) (ex_state Missing))) = 1
   \<and> config_file (ex_env (Exited 0 [] [])) = Inr ex_cfg
   \<and> exit_status (fst (main (ex_env (Exited 0 [] [])) (ex_state Missing))) = 0"
  using run_all_jobs_outcome[of ex_cfg "ex_env (Exited 1 [] [])" "ex_state Missing"]
    run_all_jobs_outcome[of ex_cfg "ex_env (Exited 0 [] [])" "ex_state Missing"]
  by (simp add: ex_env_def ex_cfg_def ex_job_def is_enabled_def ex_state_def)

lemma batches_total_runs:
  "total_runs (status st) = Some k \<Longrightarrow>
   \<exists>st'. batches cfg env N st = (Inr (), st') \<and> total_runs (status st') = Some (k + int N)"
proof (induction N arbitrary: st k)
  case 0
  then show ?case by simp
next
  case (Suc N)
  obtain rs :: "run_result list" and st1 where
    r: "run_all_jobs cfg env st = (Inr (filter (\<lambda>r. \<not> success r) rs = []), st1)"
       "total_runs (status st1)
          = Some ((case total_runs (status st) of None \<Rightarrow> 0 | Some n \<Rightarrow> n) + 1)"
    using run_all_jobs_spec[of cfg env st] by blast
  then have "total_runs (status st1) = Some (k + 1)" using Suc.prems by simp
  from Suc.IH[OF this] r(1) show ?case by auto
qed

lemma load_status_runs:
  "\<exists>st'. load_status env st = (Inr (), st') \<and> spawned st' = spawned st
     \<and> (case total_runs (status st') of None \<Rightarrow> 0 | Some n \<Rightarrow> n) = file_runs (status_file st)"
  by (cases "status_file st"; cases "write_outcome env (length (written st))")
     (simp_all add: load_status_def read_status_def set_status_def save_status_def
        write_status_def Let_def io_defs default_status_def)

lemma init_runs:
  assumes "config_file env = Inr cfg"
  shows "\<exists>st'. init env st = (Inr cfg, st')
     \<and> (case total_runs (status st') of None \<Rightarrow> 0 | Some n \<Rightarrow> n) = file_runs (status_file st)"
proof -
  let ?st1 = "st\<lparr>ticks := Suc (ticks st), log_lines := log_lines st @ [ConfigLoaded]\<rparr>"
  obtain st2 where l: "load_status env ?st1 = (Inr (), st2)"
    "(case total_runs (status st2) of None \<Rightarrow> 0 | Some n \<Rightarrow> n) = file_runs (status_file ?st1)"
    using load_status_runs[of env ?st1] by blast
  then show ?thesis using assms
    by (simp add: init_def load_config_def io_bind_def now_def logging_def io_return_def)
qed

lemma main_persists:
  assumes c: "config_file env = Inr cfg" and w: "\<forall>k. write_outcome env k = Written"
  shows "file_runs (status_file (snd (main env st))) = file_runs (status_file st) + 1"
proof -
  obtain s1 where i: "init env st = (Inr cfg, s1)"
    "(case total_runs (status s1) of None \<Rightarrow> 0 | Some n \<Rightarrow> n) = file_runs (status_file st)"
    using init_runs[OF c, of st] by blast
  obtain rs :: "run_result list" and s2 where
    r: "run_all_jobs cfg env s1 = (Inr (filter (\<lambda>r. \<not> success r) rs = []), s2)"
       "total_runs (status s2)
          = Some ((case total_runs (status s1) of None \<Rightarrow> 0 | Some n \<Rightarrow> n) + 1)"
       "write_outcome env (length (written s1)) = Written \<longrightarrow> status_file s2 = Stored (status s2)"
    using run_all_jobs_spec[of cfg env s1] by blast
  have "snd (main env st) = s2"
    using i(1) r(1) by (simp add: main_def io_bind_def io_raise_def)
  moreover have "status_file s2 = Stored (status s2)" using r(3) w by simp
  ultimately show ?thesis using r(2) i(2) by simp
qed

lemma invocations_persist:
  assumes c: "config_file env = Inr cfg" and w: "\<forall>k. write_outcome env k = Written"
  shows "file_runs (status_file (invocations env N st)) = file_runs (status_file st) + int N"
proof (induction N arbitrary: st)
  case 0
  show ?case by simp
next
  case (Suc N)
  show ?case using Suc[of "snd (main env st)"] main_persists[OF c w, of st] by simp
qed

text \<open>
  C4.  A batch leaves \<open>total_runs\<close> at its previous value plus one (an absent counter
  counts as 0), so the counter strictly increases and is never reset; \<open>N\<close> batches run
  one after the other from the empty default document leave \<open>total_runs = N\<close>; and so do
  \<open>N\<close> runs of the whole program that start with no status file, when the configuration
  loads and every write of the status file succeeds.
\<close>

theorem total_runs_counts_batches:
  "(\<exists>b st'. run_all_jobs cfg env st = (Inr b, st')
      \<and> total_runs (status st')
          = Some ((case total_runs (status st) of None \<Rightarrow> 0 | Some n \<Rightarrow> n) + 1))
   \<and> (\<exists>st'. batches cfg env N (st\<lparr>status := default_status\<rparr>) = (Inr (), st')
         \<and> total_runs (status st') = Some (int N))
   \<and> (config_file env = Inr cfg \<and> (\<forall>k. write_outcome env k = Written)
         \<and> status_file st = Missing
       \<longrightarrow> file_runs (status_file (invocations env N st)) = int N)"
proof (intro conjI impI)
  show "\<exists>b st'. run_all_jobs cfg env st = (Inr b, st')
      \<and> total_runs (status st')
          = Some ((case total_runs (status st) of None \<Rightarrow> 0 | Some n \<Rightarrow> n) + 1)"
    using run_all_jobs_spec[of cfg env st] by blast
  show "\<exists>st'. batches cfg env N (st\<lparr>status := default_status\<rparr>) = (Inr (), st')
         \<and> total_runs (status st') = Some (int N)"
    using batches_total_runs[where st="st\<lparr>status := default_status\<rparr>" and k=0
        and cfg=cfg and env=env and N=N]
    by (simp add: default_status_def)
  assume "config_file env = Inr cfg \<and> (\<forall>k. write_outcome env k = Written)
         \<and> status_file st = Missing"
  then show "file_runs (status_file (invocations env N st)) = int N"
    using invocations_persist[of env cfg N st] by simp
qed

theorem total_runs_counts_batches_witness:
  "config_file (ex_env (Exited 0 [] [])) = Inr ex_cfg
   \<and> (\<forall>k. write_outcome (ex_env (Exited 0 [] [])) k = Written)
   \<and> status_file (ex_state Missing) = Missing
   \<and> file_runs (status_file (invocations (ex_env (Exited 0 [] [])) 3 (ex_state Missing))) = 3"
  using total_runs_counts_batches[of ex_cfg "ex_env (Exited 0 [] [])" "ex_state Missing" 3]
  by (simp add: ex_env_def ex_state_def)

lemma filter_is_enabled:
  "filter is_enabled js = filter (\<lambda>j. enabled j \<noteq> Some False) js"
proof -
  have "is_enabled j \<longleftrightarrow> enabled j \<noteq> Some False" for j :: job
    by (cases "enabled j") (simp_all add: is_enabled_def)
  then show ?thesis by (simp cong: filter_cong)
qed

text \<open>
  C5.  A job with \<open>enabled = false\<close> is skipped: the loop logs it and goes on with the
  next job, in the state and with the lists it had.  The loop goes through the jobs in
  the order of the configuration; the commands it spawns are those of the jobs whose
  \<open>enabled\<close> is not false, in that order, and the results \<open>rs\<close> of those jobs, one for
  each, are all that the failed and the successful list hold.  The loop hands nothing to
  the Notifier; \<open>run_all_jobs\<close> hands it one list when a job failed, the failed ones
  among \<open>rs\<close>, and nothing otherwise; and the counts of \<open>last_summary\<close> are the lengths
  of the two lists, which add up to the number of jobs whose \<open>enabled\<close> is not false.
\<close>

theorem disabled_jobs_never_run:
  "(enabled j = Some False \<longrightarrow>
      run_jobs cfg env (j # js) (F, S) st
        = run_jobs cfg env js (F, S)
            (st\<lparr>log_lines := log_lines st @ [SkippingDisabled (name j)]\<rparr>))
   \<and> (\<exists>rs st'. run_jobs cfg env js ([], []) st
        = (Inr (filter (\<lambda>r. \<not> success r) rs, filter success rs), st')
      \<and> map name rs = map name (filter (\<lambda>j. enabled j \<noteq> Some False) js)
      \<and> map source rs = map source (filter (\<lambda>j. enabled j \<noteq> Some False) js)
      \<and> length (filter (\<lambda>r. \<not> success r) rs) + length (filter success rs)
          = length (filter (\<lambda>j. enabled j \<noteq> Some False) js)
      \<and> spawned st'
          = spawned st @ map (build_cmd cfg) (filter (\<lambda>j. enabled j \<noteq> Some False) js)
      \<and> notified st' = notified st)
   \<and> (\<exists>(rs :: run_result list) b st' s. run_all_jobs cfg env st = (Inr b, st')
      \<and> map name rs = map name (filter (\<lambda>j. enabled j \<noteq> Some False) (sync_jobs cfg))
      \<and> map source rs = map source (filter (\<lambda>j. enabled j \<noteq> Some False) (sync_jobs cfg))
      \<and> map success rs
          = map proc_ok (outcomes cfg env (length (spawned st))
                           (filter (\<lambda>j. enabled j \<noteq> Some False) (sync_jobs cfg)))
      \<and> spawned st'
          = spawned st @ map (build_cmd cfg)
                           (filter (\<lambda>j. enabled j \<noteq> Some False) (sync_jobs cfg))
      \<and> notified st'
          = notified st @ (if filter (\<lambda>r. \<not> success r) rs = [] then []
                           else [filter (\<lambda>r. \<not> success r) rs])
      \<and> last_summary (status st') = Some s
      \<and> successful s = length (filter success rs)
      \<and> failed s = length (filter (\<lambda>r. \<not> success r) rs)
      \<and> successful s + failed s
          = length (filter (\<lambda>j. enabled j \<noteq> Some False) (sync_jobs cfg)))"
proof (intro conjI impI)
  assume "enabled j = Some False"
  then show "run_jobs cfg env (j # js) (F, S) st
        = run_jobs cfg env js (F, S)
            (st\<lparr>log_lines := log_lines st @ [SkippingDisabled (name j)]\<rparr>)"
    by (simp add: is_enabled_def logging_def)
next
  let ?js = "filter (\<lambda>j. enabled j \<noteq> Some False) js"
  obtain rs st' where r:
    "run_jobs cfg env js ([], []) st
        = (Inr ([] @ filter (\<lambda>r. \<not> success r) rs, [] @ filter success rs), st')"
    "map name rs = map name (filter is_enabled js)"
    "map source rs = map source (filter is_enabled js)"
    "spawned st' = spawned st @ map (build_cmd cfg) (filter is_enabled js)"
    using run_jobs_spec[of cfg env js "[]" "[]" st] by blast
  have n: "notified st' = notified st"
    using run_jobs_notified[of cfg env js "[]" "[]" st] r(1) by simp
  have "length rs = length (filter is_enabled js)"
    using r(2) by (rule map_eq_imp_length_eq)
  moreover have "length (filter (\<lambda>r. \<not> success r) rs) + length (filter success rs) = length rs"
    using sum_length_filter_compl[of success rs] by simp
  ultimately show "\<exists>rs st'. run_jobs cfg env js ([], []) st
        = (Inr (filter (\<lambda>r. \<not> success r) rs, filter success rs), st')
      \<and> map name rs = map name ?js
      \<and> map source rs = map source ?js
      \<and> length (filter (\<lambda>r. \<not> success r) rs) + length (filter success rs) = length ?js
      \<and> spawned st' = spawned st @ map (build_cmd cfg) ?js
      \<and> notified st' = notified st"
    using r n by (intro exI[of _ rs] exI[of _ st']) (simp add: filter_is_enabled)
next
  let ?js = "filter (\<lambda>j. enabled j \<noteq> Some False) (sync_jobs cfg)"
  obtain rs :: "run_result list" and st' where r:
    "run_all_jobs cfg env st = (Inr (filter (\<lambda>r. \<not> success r) rs = []), st')"
    "map name rs = map name (filter is_enabled (sync_jobs cfg))"
    "map source rs = map source (filter is_enabled (sync_jobs cfg))"
    "map success rs
       = map proc_ok (outcomes cfg env (length (spawned st)) (filter is_enabled (sync_jobs cfg)))"
    "spawned st' = spawned st @ map (build_cmd cfg) (filter is_enabled (sync_jobs cfg))"
    "last_summary (status st')
         = Some \<lparr>successful = length (filter success rs),
                 failed = length (filter (\<lambda>r. \<not> success r) rs),
                 total_count = length (filter success rs)
                               + length (filter (\<lambda>r. \<not> success r) rs)\<rparr>"
    "notified st'
         = notified st @ (if filter (\<lambda>r. \<not> success r) rs = [] then []
                          else [filter (\<lambda>r. \<not> success r) rs])"
    using run_all_jobs_spec[of cfg env st] by blast
  have "length rs = length ?js"
    using map_eq_imp_length_eq[OF r(2)] by (simp add: filter_is_enabled)
  moreover have "length (filter success rs) + length (filter (\<lambda>r. \<not> success r) rs) = length rs"
    by (rule sum_length_filter_compl)
  ultimately show "\<exists>(rs :: run_result list) b st' s. run_all_jobs cfg env st = (Inr b, st')
      \<and> map name rs = map name ?js
      \<and> map source rs = map source ?js
      \<and> map success rs = map proc_ok (outcomes cfg env (length (spawned st)) ?js)
      \<and> spawned st' = spawned st @ map (build_cmd cfg) ?js
      \<and> notified st'
          = notified st @ (if filter (\<lambda>r. \<not> success r) rs = [] then []
                           else [filter (\<lambda>r. \<not> success r) rs])
      \<and> last_summary (status st') = Some s
      \<and> successful s = length (filter success rs)
      \<and> failed s = length (filter (\<lambda>r. \<not> success r) rs)
      \<and> successful s + failed s = length ?js"
    using r by (intro exI[of _ rs]) (simp add: filter_is_enabled)
qed

theorem disabled_jobs_never_run_witness:
  "enabled (ex_job ''b'' (Some False)) = Some False
   \<and> run_jobs ex_cfg (ex_env (Exited 1 [] [])) [ex_job ''b'' (Some False), ex_job ''c'' (Some True)]
       ([], []) (ex_state Missing)
     = run_jobs ex_cfg (ex_env (Exited 1 [] [])) [ex_job ''c'' (Some True)] ([], [])
         ((ex_state Missing)
            \<lparr>log_lines := log_lines (ex_state Missing)
                           @ [SkippingDisabled (name (ex_job ''b'' (Some False)))]\<rparr>)
   \<and> (\<exists>(rs :: run_result list) b st' s.
          run_all_jobs ex_cfg (ex_env (Exited 1 [] [])) (ex_state Missing) = (Inr b, st')
        \<and> map name rs = map name [ex_job ''a'' None, ex_job ''c'' (Some True)]
        \<and> map source rs = map source [ex_job ''a'' None, ex_job ''c'' (Some True)]
        \<and> map success rs
            = map proc_ok (outcomes ex_cfg (ex_env (Exited 1 [] []))
                             (length (spawned (ex_state Missing)))
                             [ex_job ''a'' None, ex_job ''c'' (Some True)])
        \<and> spawned st'
            = spawned (ex_state Missing)
              @ map (build_cmd ex_cfg) [ex_job ''a'' None, ex_job ''c'' (Some True)]
        \<and> notified st'
            = notified (ex_state Missing)
              @ (if filter (\<lambda>r. \<not> success r) rs = [] then []
                 else [filter (\<lambda>r. \<not> success r) rs])
        \<and> last_summary (status st') = Some s
        \<and> successful s = length (filter success rs)
        \<and> failed s = length (filter (\<lambda>r. \<not> success r) rs)
        \<and> successful s + failed s = length [ex_job ''a'' None, ex_job ''c'' (Some True)])"
proof -
  have h: "enabled (ex_job ''b'' (Some False)) = Some False"
    by (simp add: ex_job_def)
  have f: "filter (\<lambda>j. enabled j \<noteq> Some False) (sync_jobs ex_cfg)
          = [ex_job ''a'' None, ex_job ''c'' (Some True)]"
    by (simp add: ex_cfg_def ex_job_def)
  note T = disabled_jobs_never_run[of "ex_job ''b'' (Some False)" ex_cfg "ex_env (Exited 1 [] [])"
        "[ex_job ''c'' (Some True)]" "[]" "[]" "ex_state Missing"]
  have 1: "run_jobs ex_cfg (ex_env (Exited 1 [] [])) [ex_job ''b'' (Some False), ex_job ''c'' (Some True)]
       ([], []) (ex_state Missing)
     = run_jobs ex_cfg (ex_env (Exited 1 [] [])) [ex_job ''c'' (Some True)] ([], [])
         ((ex_state Missing)
            \<lparr>log_lines := log_lines (ex_state Missing)
                           @ [SkippingDisabled (name (ex_job ''b'' (Some False)))]\<rparr>)"
    by (rule T[THEN conjunct1, THEN mp, OF h])
  show ?thesis
    apply (intro conjI)
      apply (rule h)
     apply (rule 1)
    using T[THEN conjunct2, THEN conjunct2]
    apply (simp only: f)
    done
qed

text \<open>
  C6.  After a batch, \<open>last_summary\<close> has \<open>total = successful + failed\<close>, and the total
  is the number of enabled jobs of the configuration.
\<close>

theorem last_summary_total:
  "\<exists>b st' s. run_all_jobs cfg env st = (Inr b, st')
     \<and> last_summary (status st') = Some s
     \<and> total_count s = successful s + failed s
     \<and> total_count s = length (filter is_enabled (sync_jobs cfg))"
proof -
  let ?js = "filter is_enabled (sync_jobs cfg)"
  obtain rs :: "run_result list" and st' where r:
    "run_all_jobs cfg env st = (Inr (filter (\<lambda>r. \<not> success r) rs = []), st')"
    "map name rs = map name ?js"
    "last_summary (status st')
         = Some \<lparr>successful = length (filter success rs),
                 failed = length (filter (\<lambda>r. \<not> success r) rs),
                 total_count = length (filter success rs)
                               + length (filter (\<lambda>r. \<not> success r) rs)\<rparr>"
    using run_all_jobs_spec[of cfg env st] by blast
  have "length rs = length ?js"
    using r(2) by (rule map_eq_imp_length_eq)
  moreover have "length (filter success rs) + length (filter (\<lambda>r. \<not> success r) rs) = length rs"
    by (rule sum_length_filter_compl)
  ultimately show ?thesis using r by simp
qed

text \<open>
  C7.  When the invocation of the child process fails with anything but a timeout
  (\<open>subprocess.run\<close> raises another exception, of description \<open>m\<close>), \<open>run_rsync\<close>
  returns a result with \<open>success\<close> false, return code \<open>-1\<close>, error \<open>m\<close> and duration
  0, whatever the clock says; the result is also the job's entry of the status.
\<close>

theorem run_rsync_failure:
  assumes "spawn env (length (spawned st)) (build_cmd cfg job) = Failure m"
  shows "\<exists>r st'. run_rsync cfg env job st = (Inr r, st')
     \<and> success r = False \<and> return_code r = - 1
     \<and> error r = Some m \<and> duration r = 0
     \<and> jobs (status st') (name job) = Some r"
  using assms by (simp add: run_rsync_def Let_def io_defs)

theorem run_rsync_failure_witness:
  "spawn (ex_env (Failure ''[Errno 2] No such file or directory: rsync''))
       (length (spawned (ex_state Missing))) (build_cmd ex_cfg (ex_job ''a'' None))
     = Failure ''[Errno 2] No such file or directory: rsync''
   \<and> (\<exists>r st'. run_rsync ex_cfg (ex_env (Failure ''[Errno 2] No such file or directory: rsync''))
                   (ex_job ''a'' None) (ex_state Missing) = (Inr r, st')
        \<and> success r = False \<and> return_code r = - 1
        \<and> error r = Some ''[Errno 2] No such file or directory: rsync'' \<and> duration r = 0
        \<and> jobs (status st') (name (ex_job ''a'' None)) = Some r)"
  using run_rsync_failure[of "ex_env (Failure ''[Errno 2] No such file or directory: rsync'')"
      "ex_state Missing" ex_cfg "ex_job ''a'' None" "''[Errno 2] No such file or directory: rsync''"]
  by (simp add: ex_env_def)

text \<open>
  C9.  When the status file is missing or cannot be read, \<open>load_status\<close> returns
  normally (it raises nothing, also when the write of the default fails) and the status
  is the empty default document.
\<close>

theorem load_status_default:
  assumes "status_file st = Missing \<or> status_file st = Unreadable m"
  shows "\<exists>st'. load_status env st = (Inr (), st') \<and> status st' = default_status"
  using assms
  by (cases "write_outcome env (length (written st))")
     (auto simp add: load_status_def read_status_def set_status_def save_status_def
        write_status_def Let_def io_defs)

theorem load_status_default_witness:
  "(status_file (ex_state Missing) = Missing
      \<or> status_file (ex_state Missing) = Unreadable ''x'')
   \<and> (\<exists>st'. load_status (ex_env Timeout) (ex_state Missing) = (Inr (), st')
          \<and> status st' = default_status)
   \<and> (status_file (ex_state (Unreadable ''Expecting value'')) = Missing
      \<or> status_file (ex_state (Unreadable ''Expecting value'')) = Unreadable ''Expecting value'')
   \<and> (\<exists>st'. load_status (ex_env Timeout) (ex_state (Unreadable ''Expecting value''))
               = (Inr (), st')
          \<and> status st' = default_status)"
  using load_status_default[of "ex_state Missing" "''x''" "ex_env Timeout"]
    load_status_default[of "ex_state (Unreadable ''Expecting value'')" "''Expecting value''"
      "ex_env Timeout"]
  by (simp add: ex_state_def)

text \<open>
  C10.  When the status file is missing, \<open>load_status\<close> calls \<open>save_status\<close>: a write
  of the default document is issued, and the file holds the default document when the
  write succeeds.  On any other read failure nothing is written and the file stays as it
  was.
\<close>

theorem load_status_missing_writes:
  "(status_file st = Missing \<longrightarrow>
      (\<exists>st'. load_status env st = (Inr (), st')
         \<and> written st' = written st @ [default_status]
         \<and> (write_outcome env (length (written st)) = Written
              \<longrightarrow> status_file st' = Stored default_status)))
   \<and> (status_file st = Unreadable m \<longrightarrow>
      (\<exists>st'. load_status env st = (Inr (), st')
         \<and> written st' = written st \<and> status_file st' = status_file st))"
  by (cases "write_outcome env (length (written st))")
     (auto simp add: load_status_def read_status_def set_status_def save_status_def
        write_status_def Let_def io_defs)

theorem load_status_missing_writes_witness:
  "status_file (ex_state Missing) = Missing
   \<and> write_outcome (ex_env Timeout) (length (written (ex_state Missing))) = Written
   \<and> (\<exists>st'. load_status (ex_env Timeout) (ex_state Missing) = (Inr (), st')
         \<and> written st' = [default_status] \<and> status_file st' = Stored default_status)
   \<and> status_file (ex_state (Unreadable ''Expecting value'')) = Unreadable ''Expecting value''
   \<and> (\<exists>st'. load_status (ex_env Timeout) (ex_state (Unreadable ''Expecting value''))
               = (Inr (), st')
         \<and> written st' = [] \<and> status_file st' = Unreadable ''Expecting value'')"
  using load_status_missing_writes[of "ex_state Missing" "ex_env Timeout" "''x''"]
    load_status_missing_writes[of "ex_state (Unreadable ''Expecting value'')" "ex_env Timeout"
      "''Expecting value''"]
  by (simp add: ex_state_def ex_env_def)

lemma build_cmd_set_notification: "build_cmd (set_notification cfg n) j = build_cmd cfg j"
  by (simp add: build_cmd_def setting_def set_notification_def split: option.splits)

lemma outcomes_indep:
  "outcomes (set_notification cfg n) (env\<lparr>smtp_error := f\<rparr>) k js = outcomes cfg env k js"
  by (induction js arbitrary: k) (simp_all add: build_cmd_set_notification)

lemma run_all_jobs_result:
  "fst (run_all_jobs cfg env st)
     = Inr (list_all proc_ok
              (outcomes cfg env (length (spawned st)) (filter is_enabled (sync_jobs cfg))))"
proof -
  let ?os = "outcomes cfg env (length (spawned st)) (filter is_enabled (sync_jobs cfg))"
  obtain rs :: "run_result list" and st' where
    r: "run_all_jobs cfg env st = (Inr (filter (\<lambda>r. \<not> success r) rs = []), st')"
       "map success rs = map proc_ok ?os"
    using run_all_jobs_spec[of cfg env st] by blast
  have "length (filter (\<lambda>r. \<not> success r) rs) = length (filter (\<lambda>oc. \<not> proc_ok oc) ?os)"
    using r(2) by (rule count_failed_eq)
  then have "(filter (\<lambda>r. \<not> success r) rs = []) \<longleftrightarrow> (filter (\<lambda>oc. \<not> proc_ok oc) ?os = [])"
    by (metis length_0_conv)
  also have "\<dots> \<longleftrightarrow> list_all proc_ok ?os"
    by (simp add: list_all_iff filter_empty_conv)
  finally show ?thesis using r(1) by simp
qed

section \<open>Properties of the Notifier\<close>

text \<open>
  C8 (amended).  With an empty list \<open>send_notification\<close> does nothing at all: no log
  line, no delivery.  With a non-empty list and no recipient (the \<open>email\<close> setting absent
  or empty) it attempts no delivery and logs one warning.  A failure while the message is
  composed or delivered is caught and logged as an error, so the call always returns
  normally; and the value that \<open>run_all_jobs\<close> returns does not depend on the
  notification settings or on what the mail relay does.
\<close>

theorem send_notification_contained:
  "send_notification cfg env [] st = (Inr (), st)
   \<and> (fj \<noteq> [] \<and> \<not> truthy (email (notification_config cfg)) \<longrightarrow>
        send_notification cfg env fj st
          = (Inr (), st\<lparr>log_lines := log_lines st @ [NotifySkipped]\<rparr>)
        \<and> level NotifySkipped = Warning)
   \<and> (fj \<noteq> [] \<and> notify_try cfg env fj st = (Inl e, st1) \<longrightarrow>
        send_notification cfg env fj st
          = (Inr (), st1\<lparr>log_lines := log_lines st1 @ [NotifyFailed (str_exn e)]\<rparr>))
   \<and> (\<exists>st'. send_notification cfg env fj st = (Inr (), st'))
   \<and> fst (run_all_jobs (set_notification cfg n) (env\<lparr>smtp_error := f\<rparr>) st)
       = fst (run_all_jobs cfg env st)"
proof (intro conjI impI)
  show "send_notification cfg env [] st = (Inr (), st)"
    by (simp add: send_notification_def io_return_def)
next
  assume "fj \<noteq> [] \<and> \<not> truthy (email (notification_config cfg))"
  then show "send_notification cfg env fj st
          = (Inr (), st\<lparr>log_lines := log_lines st @ [NotifySkipped]\<rparr>)"
    by (simp add: send_notification_def notify_try_def Let_def io_try_def logging_def)
next
  show "level NotifySkipped = Warning" by simp
next
  assume a: "fj \<noteq> [] \<and> notify_try cfg env fj st = (Inl e, st1)"
  have "benign st (notify_try cfg env fj st)" by (rule notify_try_benign)
  with a have "is_Exception e" by (simp add: benign_def)
  with a show "send_notification cfg env fj st
          = (Inr (), st1\<lparr>log_lines := log_lines st1 @ [NotifyFailed (str_exn e)]\<rparr>)"
    by (simp add: send_notification_def io_try_def logging_def)
next
  show "\<exists>st'. send_notification cfg env fj st = (Inr (), st')"
    using send_notification_returns[of cfg env fj st] by blast
next
  show "fst (run_all_jobs (set_notification cfg n) (env\<lparr>smtp_error := f\<rparr>) st)
       = fst (run_all_jobs cfg env st)"
  proof -
    have "sync_jobs (set_notification cfg n) = sync_jobs cfg"
      by (simp add: set_notification_def)
    then show ?thesis by (simp add: run_all_jobs_result outcomes_indep)
  qed
qed

theorem send_notification_contained_witness:
  "([ex_result] \<noteq> [] \<and> \<not> truthy (email (notification_config ex_cfg)))
   \<and> send_notification ex_cfg (ex_env Timeout) [ex_result] (ex_state Missing)
       = (Inr (), (ex_state Missing)\<lparr>log_lines := [NotifySkipped]\<rparr>)
   \<and> ([ex_result] \<noteq> []
        \<and> notify_try ex_cfg_mail (ex_env Timeout) [ex_result] (ex_state Missing)
            = (Inl (KeyError ''smtp_user''), ex_state Missing))
   \<and> send_notification ex_cfg_mail (ex_env Timeout) [ex_result] (ex_state Missing)
       = (Inr (), (ex_state Missing)\<lparr>log_lines := [NotifyFailed (str_exn (KeyError ''smtp_user''))]\<rparr>)"
  using send_notification_contained[of ex_cfg "ex_env Timeout" "ex_state Missing" "[ex_result]"]
    send_notification_contained[of ex_cfg_mail "ex_env Timeout" "ex_state Missing" "[ex_result]"
      "KeyError ''smtp_user''" "ex_state Missing"]
  by (simp add: ex_cfg_def ex_cfg_mail_def notification_config_def setting_def truthy_def
        ex_state_def notify_try_def subscript_def io_defs)

text \<open>
  C8 as stated fails for the empty list: the guard returns before anything is logged, so
  no warning is in the log.
\<close>

theorem send_notification_empty_counterexample:
  "log_lines (snd (send_notification ex_cfg (ex_env Timeout) [] (ex_state Missing))) = []"
  by (simp add: send_notification_def io_return_def ex_state_def)

section \<open>The StatsParser on concrete outputs\<close>

text \<open>The example of the specification, and an output with no recognised line.\<close>

lemma parse_rsync_stats_example:
  "parse_rsync_stats (''Number of files: 120'' @ [CHR 0x0A]
                      @ ''Total transferred file size: 4,096 bytes'' @ [CHR 0x0A])
   = Inr [''total_files'' \<mapsto> ''120'', ''transferred_size'' \<mapsto> ''4,096 bytes'']"
  by (simp add: parse_rsync_stats_def parse_line_def set_stat_def field1_def strip_def
        py_isspace_def)

lemma parse_lines_unrecognised:
  assumes "\<forall>l \<in> set ls. \<not> contains l ''Number of files:''
      \<and> \<not> contains l ''Number of created files:'' \<and> \<not> contains l ''Number of deleted files:''
      \<and> \<not> contains l ''Total transferred file size:'' \<and> \<not> contains l ''Total file size:''"
  shows "parse_lines st ls = Inr st"
  using assms by (induction ls) (simp_all add: parse_line_def)

text \<open>
  C3.  The value of a recognised line should be the text after the first colon of the
  line, trimmed.  \<open>line.split(':')[1]\<close> stops at the second colon: on the line that
  rsync prints for a transfer of 120 files, \<open>parse_rsync_stats\<close> stores \<open>120 (reg\<close>
  where the text after the first colon is \<open>120 (reg: 100, dir: 20)\<close>.
\<close>

theorem parse_rsync_stats_second_colon:
  "parse_rsync_stats (''Number of files: 120 (reg: 100, dir: 20)'' @ [CHR 0x0A])
     = Inr [''total_files'' \<mapsto> ''120 (reg'']
   \<and> after_first_colon ''Number of files: 120 (reg: 100, dir: 20)'' = ''120 (reg: 100, dir: 20)''"
  by (simp add: parse_rsync_stats_def parse_line_def set_stat_def field1_def strip_def
        py_isspace_def after_first_colon_def)

end
